theory Spec2Isabelle
  imports Main "HOL-Library.Word"
begin

unbundle bit_operations_syntax

section \<open>BadgeLink filesystem handlers (badgelink\_fs.c)\<close>

text \<open>
  A shallow embedding of the filesystem request handlers and of the filesystem side of
  the transfer state machine. The C globals become the fields of one record that every
  handler takes and returns; the C library underneath (stdio, dirent, unlink) becomes a
  small explicit world with a table of open streams; the packets handed to
  \<^verbatim>\<open>badgelink_send_packet\<close> are appended to a list.
\<close>

type_synonym u8 = "8 word"
type_synonym u16 = "16 word"
type_synonym u32 = "32 word"

subsection \<open>CRC-32 of the ESP-IDF ROM\<close>

text \<open>
  \<^verbatim>\<open>esp_crc32_le(crc, buf, len)\<close> belongs to ESP-IDF, not to this repository. Its
  documented meaning is the reflected CRC-32 (polynomial \<^verbatim>\<open>0xEDB88320\<close>) that
  inverts the incoming value, folds the bytes in, and inverts the result, so that
  \<^verbatim>\<open>esp_crc32_le(0, buf, len)\<close> is the usual CRC-32 of the buffer. The table lookup
  of the ROM is written out here bit by bit.
\<close>

definition crc32_bit :: "u32 \<Rightarrow> u32" where
  "crc32_bit c = (if bit c 0 then drop_bit 1 c XOR 0xEDB88320 else drop_bit 1 c)"

definition crc32_byte :: "u32 \<Rightarrow> u8 \<Rightarrow> u32" where
  "crc32_byte c b =
     crc32_bit (crc32_bit (crc32_bit (crc32_bit
       (crc32_bit (crc32_bit (crc32_bit (crc32_bit (c XOR ucast b))))))))"

definition esp_crc32_le :: "u32 \<Rightarrow> u8 list \<Rightarrow> u32" where
  "esp_crc32_le crc buf = NOT (foldl crc32_byte (NOT crc) buf)"

subsection \<open>C strings\<close>

text \<open>\<^verbatim>\<open>strlcpy(dst, src, n)\<close> keeps at most \<open>n - 1\<close> characters of the source.\<close>

definition strlcpy :: "string \<Rightarrow> nat \<Rightarrow> string" where
  "strlcpy src n = take (n - 1) src"

text \<open>\<^verbatim>\<open>strcmp\<close>: zero on equal strings, the sign of the first difference otherwise.\<close>

fun strcmp :: "string \<Rightarrow> string \<Rightarrow> int" where
  "strcmp [] [] = 0"
| "strcmp [] (y # ys) = - 1"
| "strcmp (x # xs) [] = 1"
| "strcmp (x # xs) (y # ys) =
     (if x = y then strcmp xs ys
      else if (of_char x :: nat) < of_char y then - 1 else 1)"

text \<open>\<^verbatim>\<open>strncmp(a, b, n) == 0\<close>: the first \<open>n\<close> characters agree.\<close>

definition strncmp_eq :: "string \<Rightarrow> string \<Rightarrow> nat \<Rightarrow> bool" where
  "strncmp_eq a b n = (take n a = take n b)"

subsection \<open>The C library underneath\<close>

text \<open>
  The storage backend is outside the repository. The world below is the part of it these
  handlers can observe: a tree of nodes, the open streams, \<^verbatim>\<open>errno\<close>, and the ways
  the medium can fail (an open that is refused, a file offset that cannot be read, a
  number of bytes after which writes fall short, a metadata query that fails).
  \<open>E0\<close> is the value 0 of \<^verbatim>\<open>errno\<close>, no error. A stream is named by a number,
  the address of its \<^verbatim>\<open>FILE\<close>; \<open>None\<close> is the NULL pointer. A call on NULL or on
  a closed stream is undefined in C; here it fails with \<^verbatim>\<open>EBADF\<close> and does nothing
  else. The handlers below reach the stream calls only with the handle they opened.
  A directory node holds the entries in the order \<^verbatim>\<open>readdir\<close> returns them,
  \<^verbatim>\<open>.\<close> and \<^verbatim>\<open>..\<close> included when the file system reports them.
\<close>

datatype errno_t = E0 | ENOENT | EISDIR | ENOTDIR | ENOSPC | EIO | EBADF

record dirent =
  d_name :: string
  d_is_dir :: bool

datatype node = File "u8 list" | Dir "dirent list"

record stream =
  st_path :: string
  st_pos :: nat
  st_error :: bool

record world =
  nodes :: "string \<Rightarrow> node option"
  streams :: "nat \<Rightarrow> stream option"
  next_stream :: nat
  errno :: errno_t
  open_fault :: "string \<Rightarrow> errno_t option"
  read_fault :: "string \<Rightarrow> nat option"
  write_budget :: nat
  write_errno :: errno_t
  fstat_fault :: "errno_t option"

datatype fmode = RB | WPB

text \<open>
  \<^verbatim>\<open>fopen\<close>: \<open>None\<close> is the NULL pointer. Mode \<^verbatim>\<open>"rb"\<close> needs an existing
  file; mode \<^verbatim>\<open>"w+b"\<close> creates the file or truncates it.
\<close>

definition new_stream :: "string \<Rightarrow> world \<Rightarrow> nat option \<times> world" where
  "new_stream path w =
     (Some (next_stream w),
      w\<lparr>streams := (streams w)(next_stream w \<mapsto> \<lparr>st_path = path, st_pos = 0, st_error = False\<rparr>),
        next_stream := Suc (next_stream w)\<rparr>)"

definition fopen :: "string \<Rightarrow> fmode \<Rightarrow> world \<Rightarrow> nat option \<times> world" where
  "fopen path m w =
     (case open_fault w path of
        Some e \<Rightarrow> (None, w\<lparr>errno := e\<rparr>)
      | None \<Rightarrow>
          (case nodes w path of
             Some (Dir ents) \<Rightarrow> (None, w\<lparr>errno := EISDIR\<rparr>)
           | Some (File bs) \<Rightarrow>
               (case m of
                  RB \<Rightarrow> new_stream path w
                | WPB \<Rightarrow> new_stream path (w\<lparr>nodes := (nodes w)(path \<mapsto> File [])\<rparr>))
           | None \<Rightarrow>
               (case m of
                  RB \<Rightarrow> (None, w\<lparr>errno := ENOENT\<rparr>)
                | WPB \<Rightarrow> new_stream path (w\<lparr>nodes := (nodes w)(path \<mapsto> File [])\<rparr>))))"

definition fclose :: "nat option \<Rightarrow> world \<Rightarrow> world" where
  "fclose fd w = (case fd of None \<Rightarrow> w | Some h \<Rightarrow> w\<lparr>streams := (streams w)(h := None)\<rparr>)"

text \<open>
  The bytes a stream can deliver from its position on: up to the end of the file, or up
  to the offset the medium cannot read.
\<close>

definition file_bytes :: "world \<Rightarrow> string \<Rightarrow> u8 list" where
  "file_bytes w path = (case nodes w path of Some (File bs) \<Rightarrow> bs | _ \<Rightarrow> [])"

definition readable_limit :: "world \<Rightarrow> string \<Rightarrow> nat" where
  "readable_limit w path =
     (case read_fault w path of
        None \<Rightarrow> length (file_bytes w path)
      | Some e \<Rightarrow> min e (length (file_bytes w path)))"

definition readable_prefix :: "world \<Rightarrow> string \<Rightarrow> u8 list" where
  "readable_prefix w p = take (readable_limit w p) (file_bytes w p)"

definition deliverable :: "nat \<Rightarrow> stream \<Rightarrow> world \<Rightarrow> u8 list" where
  "deliverable n st w =
     take (min n (readable_limit w (st_path st) - st_pos st))
       (drop (st_pos st) (file_bytes w (st_path st)))"

text \<open>
  \<^verbatim>\<open>fread(buf, 1, n, fd)\<close>: the bytes read and the new world. A read that stops at
  the unreadable offset is short, sets the stream's error indicator and \<^verbatim>\<open>errno\<close>;
  a read that stops at the end of the file is short and sets neither.
\<close>

definition fread :: "nat \<Rightarrow> nat option \<Rightarrow> world \<Rightarrow> u8 list \<times> world" where
  "fread n fd w =
     (case fd of
        None \<Rightarrow> ([], w\<lparr>errno := EBADF\<rparr>)
      | Some h \<Rightarrow>
          (case streams w h of
             None \<Rightarrow> ([], w\<lparr>errno := EBADF\<rparr>)
           | Some st \<Rightarrow>
               (let got = deliverable n st w;
                    failed = (length got < n \<and>
                              st_pos st + length got < length (file_bytes w (st_path st)))
                in (got,
                    w\<lparr>streams := (streams w)(h \<mapsto>
                         st\<lparr>st_pos := st_pos st + length got,
                            st_error := (st_error st \<or> failed)\<rparr>),
                      errno := (if failed then EIO else errno w)\<rparr>))))"

text \<open>
  \<^verbatim>\<open>fwrite(buf, 1, len, fd)\<close>: the number of bytes written and the new world. The
  medium accepts \<open>write_budget\<close> more bytes; a write that needs more stores the prefix
  that fits, is short, and sets \<^verbatim>\<open>errno\<close> to \<open>write_errno\<close>.
\<close>

definition fwrite :: "u8 list \<Rightarrow> nat option \<Rightarrow> world \<Rightarrow> nat \<times> world" where
  "fwrite buf fd w =
     (case fd of
        None \<Rightarrow> (0, w\<lparr>errno := EBADF\<rparr>)
      | Some h \<Rightarrow>
          (case streams w h of
             None \<Rightarrow> (0, w\<lparr>errno := EBADF\<rparr>)
           | Some st \<Rightarrow>
               (let n = min (length buf) (write_budget w);
                    bs = file_bytes w (st_path st);
                    bs' = take (st_pos st) bs @ take n buf @ drop (st_pos st + n) bs
                in (n,
                    w\<lparr>nodes := (nodes w)(st_path st \<mapsto> File bs'),
                      streams := (streams w)(h \<mapsto>
                         st\<lparr>st_pos := st_pos st + n,
                            st_error := (st_error st \<or> n < length buf)\<rparr>),
                      write_budget := write_budget w - n,
                      errno := (if n < length buf then write_errno w else errno w)\<rparr>))))"

definition ferror :: "nat option \<Rightarrow> world \<Rightarrow> bool" where
  "ferror fd w =
     (case fd of
        None \<Rightarrow> False
      | Some h \<Rightarrow> (case streams w h of None \<Rightarrow> False | Some st \<Rightarrow> st_error st))"

text \<open>\<^verbatim>\<open>fseek(fd, 0, SEEK_SET)\<close> moves to the start; the error indicator stays.\<close>

definition fseek_set0 :: "nat option \<Rightarrow> world \<Rightarrow> world" where
  "fseek_set0 fd w =
     (case fd of
        None \<Rightarrow> w
      | Some h \<Rightarrow>
          (case streams w h of
             None \<Rightarrow> w
           | Some st \<Rightarrow> w\<lparr>streams := (streams w)(h \<mapsto> st\<lparr>st_pos := 0\<rparr>)\<rparr>))"

text \<open>
  \<^verbatim>\<open>fstat(fileno(fd), &statbuf)\<close>: \<open>Inl\<close> is the failing return, \<open>Inr\<close> carries
  \<^verbatim>\<open>st_size\<close>.
\<close>

definition fstat :: "nat option \<Rightarrow> world \<Rightarrow> (unit + nat) \<times> world" where
  "fstat fd w =
     (case fstat_fault w of
        Some e \<Rightarrow> (Inl (), w\<lparr>errno := e\<rparr>)
      | None \<Rightarrow>
          (case fd of
             None \<Rightarrow> (Inl (), w\<lparr>errno := EBADF\<rparr>)
           | Some h \<Rightarrow>
               (case streams w h of
                  None \<Rightarrow> (Inl (), w\<lparr>errno := EBADF\<rparr>)
                | Some st \<Rightarrow> (Inr (length (file_bytes w (st_path st))), w))))"

definition unlink :: "string \<Rightarrow> world \<Rightarrow> world" where
  "unlink path w =
     (case nodes w path of
        None \<Rightarrow> w\<lparr>errno := ENOENT\<rparr>
      | Some (Dir ents) \<Rightarrow> w\<lparr>errno := EISDIR\<rparr>
      | Some (File bs) \<Rightarrow> w\<lparr>nodes := (nodes w)(path := None)\<rparr>)"

text \<open>
  \<^verbatim>\<open>opendir\<close> followed by \<^verbatim>\<open>readdir\<close> until it returns NULL: the entries of the
  directory in enumeration order, or NULL with \<^verbatim>\<open>errno\<close> set.
\<close>

definition opendir :: "string \<Rightarrow> world \<Rightarrow> dirent list option \<times> world" where
  "opendir path w =
     (case open_fault w path of
        Some e \<Rightarrow> (None, w\<lparr>errno := e\<rparr>)
      | None \<Rightarrow>
          (case nodes w path of
             None \<Rightarrow> (None, w\<lparr>errno := ENOENT\<rparr>)
           | Some (File bs) \<Rightarrow> (None, w\<lparr>errno := ENOTDIR\<rparr>)
           | Some (Dir ents) \<Rightarrow> (Some ents, w)))"

text \<open>
  Without \<^verbatim>\<open>CONFIG_FATFS_USE_FASTOPEN\<close> the SD helpers are \<^verbatim>\<open>fopen\<close> and a
  NULL-checked \<^verbatim>\<open>fclose\<close>; with it they differ only in the stdio buffer they attach.
\<close>

definition bl_sd_fopen :: "string \<Rightarrow> fmode \<Rightarrow> world \<Rightarrow> nat option \<times> world" where
  "bl_sd_fopen path m w = fopen path m w"

definition bl_sd_fclose :: "nat option \<Rightarrow> world \<Rightarrow> world" where
  "bl_sd_fclose fd w = (if fd \<noteq> None then fclose fd w else w)"

subsection \<open>Packets\<close>

datatype StatusCode =
  StatusOk | StatusNotSupported | StatusNotFound | StatusExists | StatusIsDir
| StatusIsFile | StatusNotEmpty | StatusNoSpace | StatusIllState | StatusInternalError

record FsDirent =
  name :: string
  is_dir :: bool

text \<open>
  The fixed array \<^verbatim>\<open>list\<close> with its \<^verbatim>\<open>list_count\<close> is a list whose length is
  \<^verbatim>\<open>list_count\<close>.
\<close>

record FsDirentList =
  list :: "FsDirent list"
  total_size :: u32

definition list_count :: "FsDirentList \<Rightarrow> nat" where
  "list_count l = length (list l)"

datatype resp =
  StatusOnly
| FsResp_list FsDirentList
| FsResp_crc32 (resp_crc32: u32) (resp_size: u32)
| DownloadChunk (chunk_position: u32) (chunk_data: "u8 list")

record response =
  status_code :: StatusCode
  which_resp :: resp

record FsActionReq =
  req_path :: string
  req_size :: u32
  req_crc32 :: u32
  req_list_offset :: u32

subsection \<open>Globals\<close>

datatype xfer_type = BADGELINK_XFER_NONE | BADGELINK_XFER_FS | BADGELINK_XFER_APPFS

text \<open>
  The first five fields are the globals of the protocol core that this file reads and
  writes; the next five are the file's own \<^verbatim>\<open>static\<close> variables; \<open>posix\<close> is the
  world; \<open>sent\<close> is every packet sent so far, oldest first.
\<close>

record state =
  badgelink_xfer_type :: xfer_type
  badgelink_xfer_is_upload :: bool
  badgelink_xfer_size :: u32
  badgelink_xfer_pos :: u32
  protocol_version :: u16
  xfer_path :: string
  xfer_fd :: "nat option"
  xfer_is_sd :: bool
  xfer_crc32 :: u32
  running_crc :: u32
  posix :: world
  sent :: "response list"

text \<open>
  Modelled from the spec: the send routine and the status helpers live in the protocol
  core (\<^verbatim>\<open>badgelink.c\<close>), which is not among the sources. By the specification a
  status helper answers with a status-only response carrying its status code, and
  \<^verbatim>\<open>badgelink_send_packet\<close> sends the response that was formatted in the packet
  buffer. Neither touches the transfer state.
\<close>

definition badgelink_send_packet :: "response \<Rightarrow> state \<Rightarrow> state" where
  "badgelink_send_packet p s = s\<lparr>sent := sent s @ [p]\<rparr>"

definition badgelink_status :: "StatusCode \<Rightarrow> state \<Rightarrow> state" where
  "badgelink_status c s =
     badgelink_send_packet \<lparr>status_code = c, which_resp = StatusOnly\<rparr> s"

abbreviation "badgelink_status_ok \<equiv> badgelink_status StatusOk"
abbreviation "badgelink_status_not_found \<equiv> badgelink_status StatusNotFound"
abbreviation "badgelink_status_is_dir \<equiv> badgelink_status StatusIsDir"
abbreviation "badgelink_status_no_space \<equiv> badgelink_status StatusNoSpace"
abbreviation "badgelink_status_ill_state \<equiv> badgelink_status StatusIllState"
abbreviation "badgelink_status_int_err \<equiv> badgelink_status StatusInternalError"

text \<open>
  Modelled from the spec: \<^verbatim>\<open>badgelink_get_protocol_version\<close> is the accessor of the
  negotiated version, also defined in the protocol core.
\<close>

definition badgelink_get_protocol_version :: "state \<Rightarrow> u16" where
  "badgelink_get_protocol_version s = protocol_version s"

subsection \<open>Transfer continuation and finish\<close>

text \<open>
  \<^verbatim>\<open>badgelink_fs_xfer_upload\<close>: the argument is the data of the upload chunk in the
  request packet.
\<close>

definition badgelink_fs_xfer_upload :: "u8 list \<Rightarrow> state \<Rightarrow> state" where
  "badgelink_fs_xfer_upload chunk s =
     (case fwrite chunk (xfer_fd s) (posix s) of
        (len, w) \<Rightarrow>
          (if len < length chunk then
             (if errno w = ENOSPC then badgelink_status_no_space (s\<lparr>posix := w\<rparr>)
              else badgelink_status_int_err (s\<lparr>posix := w\<rparr>))
           else
             badgelink_status_ok
               (s\<lparr>posix := w, running_crc := esp_crc32_le (running_crc s) chunk\<rparr>)))"

text \<open>
  \<^verbatim>\<open>badgelink_fs_xfer_download\<close>: \<open>cap\<close> is the capacity of the chunk's byte
  array, \<^verbatim>\<open>sizeof(chunk->data.bytes)\<close>, fixed by the generated protocol header.
\<close>

definition badgelink_fs_xfer_download :: "nat \<Rightarrow> state \<Rightarrow> state" where
  "badgelink_fs_xfer_download cap s =
     (case fread cap (xfer_fd s) (posix s) of
        (bytes, w) \<Rightarrow>
          (if ferror (xfer_fd s) w then badgelink_status_int_err (s\<lparr>posix := w\<rparr>)
           else
             badgelink_send_packet
               \<lparr>status_code = StatusOk,
                which_resp = DownloadChunk (badgelink_xfer_pos s) bytes\<rparr>
               (if badgelink_get_protocol_version s \<ge> 2
                then s\<lparr>posix := w, running_crc := esp_crc32_le (running_crc s) bytes\<rparr>
                else s\<lparr>posix := w\<rparr>)))"

definition close_xfer_fd :: "state \<Rightarrow> state" where
  "close_xfer_fd s =
     (if xfer_is_sd s then s\<lparr>posix := bl_sd_fclose (xfer_fd s) (posix s)\<rparr>
      else s\<lparr>posix := fclose (xfer_fd s) (posix s)\<rparr>)"

definition unlink_xfer_path :: "state \<Rightarrow> state" where
  "unlink_xfer_path s = s\<lparr>posix := unlink (xfer_path s) (posix s)\<rparr>"

definition badgelink_fs_xfer_stop :: "bool \<Rightarrow> state \<Rightarrow> state" where
  "badgelink_fs_xfer_stop abnormal s =
     (if abnormal then
        (let s1 = close_xfer_fd s
         in if badgelink_xfer_is_upload s1 then unlink_xfer_path s1 else s1)
      else if badgelink_xfer_is_upload s then
        (let s1 = close_xfer_fd s
         in if running_crc s1 \<noteq> xfer_crc32 s1
            then badgelink_status_int_err (unlink_xfer_path s1)
            else badgelink_status_ok s1)
      else
        (let s1 = close_xfer_fd s
         in if badgelink_get_protocol_version s1 \<ge> 2
            then badgelink_send_packet
                   \<lparr>status_code = StatusOk,
                    which_resp = FsResp_crc32 (running_crc s1) (badgelink_xfer_size s1)\<rparr> s1
            else badgelink_status_ok s1))"

subsection \<open>Directory listing\<close>

text \<open>
  The \<^verbatim>\<open>while (ent)\<close> loop of \<^verbatim>\<open>badgelink_fs_list\<close> over the entries
  \<^verbatim>\<open>readdir\<close> returns. \<open>max_count\<close> is the capacity of the response array and
  \<open>name_size\<close> the size of an entry's name buffer, both fixed by the generated
  protocol header. The test of the loop body is the one in the source,
  \<^verbatim>\<open>strcmp(ent->d_name, ".") || strcmp(ent->d_name, "..")\<close>.
\<close>

fun list_loop :: "nat \<Rightarrow> nat \<Rightarrow> dirent list \<Rightarrow> u32 \<Rightarrow> FsDirentList \<Rightarrow> FsDirentList" where
  "list_loop max_count name_size [] skip r = r"
| "list_loop max_count name_size (ent # ents) skip r =
     (if strcmp (d_name ent) ''.'' \<noteq> 0 \<or> strcmp (d_name ent) ''..'' \<noteq> 0 then
        (let r1 = r\<lparr>total_size := total_size r + 1\<rparr>
         in if skip \<noteq> 0 then list_loop max_count name_size ents (skip - 1) r1
            else if list_count r1 < max_count then
              list_loop max_count name_size ents skip
                (r1\<lparr>list := list r1 @
                   [\<lparr>name = strlcpy (d_name ent) name_size, is_dir = d_is_dir ent\<rparr>]\<rparr>)
            else list_loop max_count name_size ents skip r1)
      else list_loop max_count name_size ents skip r)"

definition badgelink_fs_list :: "nat \<Rightarrow> nat \<Rightarrow> FsActionReq \<Rightarrow> state \<Rightarrow> state" where
  "badgelink_fs_list max_count name_size req s =
     (case opendir (req_path req) (posix s) of
        (None, w) \<Rightarrow>
          (if errno w = ENOENT then badgelink_status_not_found (s\<lparr>posix := w\<rparr>)
           else badgelink_status_int_err (s\<lparr>posix := w\<rparr>))
      | (Some ents, w) \<Rightarrow>
          badgelink_send_packet
            \<lparr>status_code = StatusOk,
             which_resp = FsResp_list
               (list_loop max_count name_size ents (req_list_offset req)
                  \<lparr>list = [], total_size = 0\<rparr>)\<rparr>
            (s\<lparr>posix := w\<rparr>))"

text \<open>The response entry the loop stores for a directory entry.\<close>

definition entry_of :: "nat \<Rightarrow> dirent \<Rightarrow> FsDirent" where
  "entry_of name_size ent = \<lparr>name = strlcpy (d_name ent) name_size, is_dir = d_is_dir ent\<rparr>"

subsection \<open>Transfer start\<close>

definition open_xfer :: "FsActionReq \<Rightarrow> fmode \<Rightarrow> state \<Rightarrow> state" where
  "open_xfer req m s =
     (let is_sd = strncmp_eq (req_path req) ''/sd'' 3
      in case (if is_sd then bl_sd_fopen (req_path req) m (posix s)
               else fopen (req_path req) m (posix s)) of
           (fd, w) \<Rightarrow>
             s\<lparr>xfer_path := strlcpy (req_path req) 256, xfer_is_sd := is_sd,
               xfer_fd := fd, posix := w\<rparr>)"

definition open_failed :: "state \<Rightarrow> state" where
  "open_failed s =
     (if errno (posix s) = ENOENT then badgelink_status_not_found s
      else if errno (posix s) = EISDIR then badgelink_status_is_dir s
      else badgelink_status_int_err s)"

definition badgelink_fs_upload :: "FsActionReq \<Rightarrow> state \<Rightarrow> state" where
  "badgelink_fs_upload req s =
     (if badgelink_xfer_type s \<noteq> BADGELINK_XFER_NONE then badgelink_status_ill_state s
      else
        (let s1 = open_xfer req WPB s
         in if xfer_fd s1 = None then open_failed s1
            else
              badgelink_status_ok
                (s1\<lparr>badgelink_xfer_type := BADGELINK_XFER_FS,
                    badgelink_xfer_is_upload := True,
                    badgelink_xfer_size := req_size req,
                    badgelink_xfer_pos := 0,
                    xfer_crc32 := req_crc32 req,
                    running_crc := 0\<rparr>)))"

text \<open>
  The version-1 scan of \<^verbatim>\<open>badgelink_fs_download\<close>:
  \<^verbatim>\<open>while (rcount) { rcount = fread(tmp, 1, 128, fd); crc = esp_crc32_le(crc, tmp, rcount); size += rcount; }\<close>.
  It ends at the first read that returns no bytes.
\<close>

definition remaining :: "nat option \<Rightarrow> world \<Rightarrow> nat" where
  "remaining fd w =
     (case fd of
        None \<Rightarrow> 0
      | Some h \<Rightarrow>
          (case streams w h of
             None \<Rightarrow> 0
           | Some st \<Rightarrow> readable_limit w (st_path st) - st_pos st))"

function crc_scan :: "nat option \<Rightarrow> world \<Rightarrow> u32 \<Rightarrow> u32 \<Rightarrow> world \<times> u32 \<times> u32" where
  "crc_scan fd w crc sz =
     (if length (fst (fread 128 fd w)) \<noteq> 0
      then crc_scan fd (snd (fread 128 fd w))
             (esp_crc32_le crc (fst (fread 128 fd w)))
             (sz + of_nat (length (fst (fread 128 fd w))))
      else (snd (fread 128 fd w),
            esp_crc32_le crc (fst (fread 128 fd w)),
            sz + of_nat (length (fst (fread 128 fd w)))))"
  by pat_completeness auto

lemma fread_fst:
  "fst (fread n fd w) =
     (case fd of None \<Rightarrow> [] | Some h \<Rightarrow>
        (case streams w h of None \<Rightarrow> [] | Some st \<Rightarrow> deliverable n st w))"
  by (simp add: fread_def Let_def split: option.split)

lemma fread_nodes [simp]: "nodes (snd (fread n fd w)) = nodes w"
  by (simp add: fread_def Let_def split: option.split)

lemma fread_read_fault [simp]: "read_fault (snd (fread n fd w)) = read_fault w"
  by (simp add: fread_def Let_def split: option.split)

lemma fread_file_bytes [simp]: "file_bytes (snd (fread n fd w)) p = file_bytes w p"
  by (simp add: file_bytes_def)

lemma fread_readable_limit [simp]: "readable_limit (snd (fread n fd w)) p = readable_limit w p"
  by (simp add: readable_limit_def split: option.split)

lemma fread_stream:
  "streams w h = Some st \<Longrightarrow>
   streams (snd (fread n (Some h) w)) h =
     Some (st\<lparr>st_pos := st_pos st + length (deliverable n st w),
              st_error := (st_error st \<or>
                (length (deliverable n st w) < n \<and>
                 st_pos st + length (deliverable n st w) < length (file_bytes w (st_path st))))\<rparr>)"
  by (simp add: fread_def Let_def)

lemma length_deliverable:
  "length (deliverable n st w) = min n (readable_limit w (st_path st) - st_pos st)"
proof -
  have "readable_limit w (st_path st) \<le> length (file_bytes w (st_path st))"
    by (simp add: readable_limit_def split: option.split)
  then show ?thesis by (simp add: deliverable_def)
qed

lemma fread_remaining:
  assumes "length (fst (fread n fd w)) \<noteq> 0"
  shows "remaining fd (snd (fread n fd w)) < remaining fd w"
proof (cases fd)
  case None
  with assms show ?thesis by (simp add: fread_fst)
next
  case (Some h)
  show ?thesis
  proof (cases "streams w h")
    case None
    with assms Some show ?thesis by (simp add: fread_fst)
  next
    case (Some st)
    with assms \<open>fd = Some h\<close> have "0 < min n (readable_limit w (st_path st) - st_pos st)"
      by (simp add: fread_fst length_deliverable)
    then have "readable_limit w (st_path st) -
                 (st_pos st + min n (readable_limit w (st_path st) - st_pos st))
               < readable_limit w (st_path st) - st_pos st"
      by arith
    with Some \<open>fd = Some h\<close> show ?thesis
      by (simp add: remaining_def fread_stream length_deliverable)
  qed
qed

termination crc_scan
  by (relation "measure (\<lambda>(fd, w, crc, sz). remaining fd w)") (simp_all add: fread_remaining)

declare crc_scan.simps [simp del]

text \<open>
  \<^verbatim>\<open>badgelink_fs_download\<close>. \<^verbatim>\<open>size = statbuf.st_size\<close> and
  \<^verbatim>\<open>size += rcount\<close> are assignments to a \<^verbatim>\<open>uint32_t\<close>: the size is kept
  modulo \<open>2 ^ 32\<close>.
\<close>

definition start_download :: "u32 \<Rightarrow> u32 \<Rightarrow> state \<Rightarrow> state" where
  "start_download crc sz s =
     badgelink_send_packet
       \<lparr>status_code = StatusOk, which_resp = FsResp_crc32 crc sz\<rparr>
       (s\<lparr>badgelink_xfer_type := BADGELINK_XFER_FS,
          badgelink_xfer_is_upload := False,
          badgelink_xfer_pos := 0,
          badgelink_xfer_size := sz\<rparr>)"

definition badgelink_fs_download :: "FsActionReq \<Rightarrow> state \<Rightarrow> state" where
  "badgelink_fs_download req s =
     (if badgelink_xfer_type s \<noteq> BADGELINK_XFER_NONE then badgelink_status_ill_state s
      else
        (let s1 = open_xfer req RB s
         in if xfer_fd s1 = None then open_failed s1
            else if badgelink_get_protocol_version s1 \<ge> 2 then
              (case fstat (xfer_fd s1) (posix s1) of
                 (Inl u, w) \<Rightarrow> badgelink_status_int_err (close_xfer_fd (s1\<lparr>posix := w\<rparr>))
               | (Inr st_size, w) \<Rightarrow>
                   start_download 0 (of_nat st_size) (s1\<lparr>posix := w, running_crc := 0\<rparr>))
            else
              (case crc_scan (xfer_fd s1) (posix s1) 0 0 of
                 (w, crc, sz) \<Rightarrow>
                   start_download crc sz (s1\<lparr>posix := fseek_set0 (xfer_fd s1) w\<rparr>))))"

subsection \<open>Sample states\<close>

text \<open>
  A small volume: a directory whose enumeration starts with \<^verbatim>\<open>.\<close> and
  \<^verbatim>\<open>..\<close>, and a two-byte file. \<open>idle0\<close> is the state after start-up, with no
  transfer and version 1.
\<close>

definition dir0 :: "dirent list" where
  "dir0 = [\<lparr>d_name = ''.'', d_is_dir = True\<rparr>, \<lparr>d_name = ''..'', d_is_dir = True\<rparr>,
           \<lparr>d_name = ''a'', d_is_dir = False\<rparr>]"

definition world0 :: world where
  "world0 =
     \<lparr>nodes = (\<lambda>p. None)(''/d'' \<mapsto> Dir dir0, ''/f'' \<mapsto> File [0x61, 0x62]),
      streams = (\<lambda>h. None), next_stream = 0, errno = E0,
      open_fault = (\<lambda>p. None), read_fault = (\<lambda>p. None),
      write_budget = 1000, write_errno = ENOSPC, fstat_fault = None\<rparr>"

definition idle0 :: state where
  "idle0 =
     \<lparr>badgelink_xfer_type = BADGELINK_XFER_NONE, badgelink_xfer_is_upload = False,
      badgelink_xfer_size = 0, badgelink_xfer_pos = 0, protocol_version = 1,
      xfer_path = [], xfer_fd = None, xfer_is_sd = False, xfer_crc32 = 0,
      running_crc = 0, posix = world0, sent = []\<rparr>"

definition req_of :: "string \<Rightarrow> FsActionReq" where
  "req_of p = \<lparr>req_path = p, req_size = 0, req_crc32 = 0, req_list_offset = 0\<rparr>"

definition uploading0 :: state where
  "uploading0 = badgelink_fs_upload (req_of ''/g'') idle0"

definition uploading_with :: "nat \<Rightarrow> errno_t \<Rightarrow> state" where
  "uploading_with budget e =
     badgelink_fs_upload (req_of ''/g'')
       (idle0\<lparr>posix := world0\<lparr>write_budget := budget, write_errno := e\<rparr>\<rparr>)"

text \<open>
  \<open>downloading v\<close> is the state after a download of the two-byte file was started
  with negotiated version \<open>v\<close>; \<open>faulty_at e\<close> is the idle state on a medium that
  cannot read that file from offset \<open>e\<close> on.
\<close>

definition downloading :: "u16 \<Rightarrow> state" where
  "downloading v = badgelink_fs_download (req_of ''/f'') (idle0\<lparr>protocol_version := v\<rparr>)"

definition faulty_at :: "nat \<Rightarrow> state" where
  "faulty_at e = idle0\<lparr>posix := world0\<lparr>read_fault := (\<lambda>p. None)(''/f'' \<mapsto> e)\<rparr>\<rparr>"

subsection \<open>Sequences of chunks\<close>

text \<open>
  The protocol core calls \<^verbatim>\<open>badgelink_fs_xfer_upload\<close> once for every upload chunk
  it receives. \<open>upload_chunks\<close> is that sequence of calls; what the core does to its
  own globals between them does not reach \<open>running_crc\<close> or the handle, which are
  \<^verbatim>\<open>static\<close> in this file. \<open>written_chunks\<close> keeps the chunks whose
  \<^verbatim>\<open>fwrite\<close> was complete, \<open>all_written\<close> says every one was, \<open>new_sent\<close> is
  what was sent between two states, and \<open>acked\<close> keeps the chunks answered StatusOk.
\<close>

fun upload_chunks :: "u8 list list \<Rightarrow> state \<Rightarrow> state" where
  "upload_chunks [] s = s"
| "upload_chunks (c # cs) s = upload_chunks cs (badgelink_fs_xfer_upload c s)"

fun written_chunks :: "u8 list list \<Rightarrow> state \<Rightarrow> u8 list list" where
  "written_chunks [] s = []"
| "written_chunks (c # cs) s =
     (if fst (fwrite c (xfer_fd s) (posix s)) < length c
      then written_chunks cs (badgelink_fs_xfer_upload c s)
      else c # written_chunks cs (badgelink_fs_xfer_upload c s))"

fun all_written :: "u8 list list \<Rightarrow> state \<Rightarrow> bool" where
  "all_written [] s = True"
| "all_written (c # cs) s =
     (\<not> fst (fwrite c (xfer_fd s) (posix s)) < length c \<and>
      all_written cs (badgelink_fs_xfer_upload c s))"

definition new_sent :: "state \<Rightarrow> state \<Rightarrow> response list" where
  "new_sent s s' = drop (length (sent s)) (sent s')"

fun acked :: "u8 list list \<Rightarrow> response list \<Rightarrow> u8 list list" where
  "acked (c # cs) (r # rs) = (if status_code r = StatusOk then c # acked cs rs else acked cs rs)"
| "acked cs rs = []"

text \<open>
  \<open>download_chunks cap n\<close> is \<open>n\<close> calls of \<^verbatim>\<open>badgelink_fs_xfer_download\<close>, one for
  every continue request; \<open>streamed\<close> is the data of the download chunks among the
  packets sent.
\<close>

fun download_chunks :: "nat \<Rightarrow> nat \<Rightarrow> state \<Rightarrow> state" where
  "download_chunks cap 0 s = s"
| "download_chunks cap (Suc n) s = download_chunks cap n (badgelink_fs_xfer_download cap s)"

fun streamed :: "response list \<Rightarrow> u8 list" where
  "streamed [] = []"
| "streamed (r # rs) =
     (case which_resp r of DownloadChunk p d \<Rightarrow> d @ streamed rs | _ \<Rightarrow> streamed rs)"

section \<open>Properties\<close>

subsection \<open>Basic facts\<close>

lemmas sample_defs =
  idle0_def world0_def req_of_def badgelink_fs_upload_def open_xfer_def strncmp_eq_def
  fopen_def new_stream_def badgelink_status_def badgelink_send_packet_def strlcpy_def

lemma esp_crc32_le_Nil [simp]: "esp_crc32_le crc [] = crc"
  by (simp add: esp_crc32_le_def)

lemma esp_crc32_le_append: "esp_crc32_le (esp_crc32_le crc xs) ys = esp_crc32_le crc (xs @ ys)"
  by (simp add: esp_crc32_le_def)

lemma fwrite_keeps_open:
  "streams w h \<noteq> None \<Longrightarrow> streams (snd (fwrite buf fd w)) h \<noteq> None"
  by (simp add: fwrite_def Let_def split: option.split)

lemma uploading_with_fd: "xfer_fd (uploading_with b e) = Some 0"
  by (simp add: uploading_with_def sample_defs)

lemma uploading_with_fwrite:
  "fst (fwrite buf (Some 0) (posix (uploading_with b e))) = min (length buf) b"
  "errno (snd (fwrite buf (Some 0) (posix (uploading_with b e)))) =
     (if min (length buf) b < length buf then e else E0)"
  by (simp_all add: uploading_with_def sample_defs fwrite_def file_bytes_def Let_def)

subsection \<open>C1: directory listing\<close>

text \<open>
  What the handler does: it pages through all entries. The total is the number of entries
  the enumeration returns, modulo \<open>2 ^ 32\<close>, and the list holds the entries from the
  offset on, up to the capacity, with names cut to the name buffer.
\<close>

lemma strcmp_eq: "(strcmp a b = 0) = (a = b)"
  by (induction a b rule: strcmp.induct) auto

lemma dot_test_always: "strcmp n ''.'' \<noteq> 0 \<or> strcmp n ''..'' \<noteq> 0"
  by (auto simp: strcmp_eq)

lemma list_loop_all_entries:
  "list (list_loop max_count name_size ents skip r) =
     list r @ take (max_count - length (list r))
                (map (entry_of name_size) (drop (unat skip) ents))
   \<and> total_size (list_loop max_count name_size ents skip r) =
       total_size r + of_nat (length ents)"
proof (induction ents arbitrary: skip r)
  case Nil
  show ?case by simp
next
  case (Cons ent ents)
  show ?case
  proof (cases "skip = 0")
    case True
    then show ?thesis
      using Cons.IH [of 0] dot_test_always [of "d_name ent"]
      by (auto simp: Let_def list_count_def entry_of_def Suc_diff_le take_Cons'
          simp del: strcmp.simps)
  next
    case False
    then have "unat skip \<noteq> 0" by (simp add: unat_eq_0)
    then obtain k where k: "unat skip = Suc k" by (cases "unat skip") auto
    then have "unat (skip - 1) = k"
      using False by (simp add: unat_minus_one)
    with k False show ?thesis
      using Cons.IH [of "skip - 1"] dot_test_always [of "d_name ent"]
      by (simp add: Let_def del: strcmp.simps)
  qed
qed

text \<open>
  C1 asks that List skips the entries \<^verbatim>\<open>.\<close> and \<^verbatim>\<open>..\<close>, so that a directory
  with one other entry answers \<open>total_size = 1\<close> and the one name. The test in the
  loop, \<^verbatim>\<open>strcmp(name, ".") || strcmp(name, "..")\<close>, holds for every name (no name
  equals both), so the handler counts and returns the two entries as well: on the
  directory \<open>dir0\<close> with offset 0 it answers \<open>total_size = 3\<close> and all three
  names. The comment above the test says only entries that are not \<^verbatim>\<open>.\<close> nor
  \<^verbatim>\<open>..\<close> are counted.
\<close>

theorem list_counts_dot_entries:
  "sent (badgelink_fs_list 8 64 (req_of ''/d'') idle0) =
     [\<lparr>status_code = StatusOk,
       which_resp = FsResp_list
         \<lparr>list = [\<lparr>name = ''.'', is_dir = True\<rparr>, \<lparr>name = ''..'', is_dir = True\<rparr>,
                  \<lparr>name = ''a'', is_dir = False\<rparr>],
          total_size = 3\<rparr>\<rparr>]"
  by (simp add: badgelink_fs_list_def req_of_def idle0_def world0_def dir0_def opendir_def
      badgelink_send_packet_def list_count_def strlcpy_def)

subsection \<open>C5: a second start while a transfer is active\<close>

text \<open>
  C5: an Upload or Download start request that arrives while a transfer is active is
  answered with StatusIllState, and nothing of the state changes but the list of sent
  packets: path, position, sizes, both CRCs, the handle and the files stay as they were.
\<close>

theorem second_start_rejected:
  assumes "badgelink_xfer_type s \<noteq> BADGELINK_XFER_NONE"
  shows "badgelink_fs_upload req s =
           s\<lparr>sent := sent s @ [\<lparr>status_code = StatusIllState, which_resp = StatusOnly\<rparr>]\<rparr>
       \<and> badgelink_fs_download req s =
           s\<lparr>sent := sent s @ [\<lparr>status_code = StatusIllState, which_resp = StatusOnly\<rparr>]\<rparr>"
  using assms
  by (simp add: badgelink_fs_upload_def badgelink_fs_download_def badgelink_status_def
      badgelink_send_packet_def)

lemma uploading0_type: "badgelink_xfer_type uploading0 = BADGELINK_XFER_FS"
  by (simp add: uploading0_def badgelink_fs_upload_def idle0_def world0_def req_of_def
      open_xfer_def strncmp_eq_def fopen_def new_stream_def badgelink_status_def
      badgelink_send_packet_def strlcpy_def)

theorem second_start_rejected_witness:
  "badgelink_xfer_type uploading0 \<noteq> BADGELINK_XFER_NONE
   \<and> badgelink_fs_upload (req_of ''/f'') uploading0 =
       uploading0\<lparr>sent := sent uploading0 @
          [\<lparr>status_code = StatusIllState, which_resp = StatusOnly\<rparr>]\<rparr>
   \<and> badgelink_fs_download (req_of ''/f'') uploading0 =
       uploading0\<lparr>sent := sent uploading0 @
          [\<lparr>status_code = StatusIllState, which_resp = StatusOnly\<rparr>]\<rparr>"
  using second_start_rejected [of uploading0 "req_of ''/f''"] uploading0_type
  by simp

subsection \<open>C6: one upload chunk\<close>

text \<open>
  C6: \<^verbatim>\<open>badgelink_fs_xfer_upload\<close> writes the chunk. When the write is short and
  \<^verbatim>\<open>errno\<close> is \<^verbatim>\<open>ENOSPC\<close> it answers StatusNoSpace; the transfer stays as it
  was (type, direction, handle, CRCs) and the stream stays open. When the write is short
  for another reason it answers StatusInternalError. When the write is complete it folds
  the chunk into \<open>running_crc\<close> and answers StatusOk.
\<close>

theorem upload_chunk_status:
  assumes "fwrite chunk (xfer_fd s) (posix s) = (len, w)"
  shows "(len < length chunk \<and> errno w = ENOSPC \<longrightarrow>
            badgelink_fs_xfer_upload chunk s =
              s\<lparr>posix := w,
                sent := sent s @ [\<lparr>status_code = StatusNoSpace, which_resp = StatusOnly\<rparr>]\<rparr>)
       \<and> (len < length chunk \<and> errno w \<noteq> ENOSPC \<longrightarrow>
            badgelink_fs_xfer_upload chunk s =
              s\<lparr>posix := w,
                sent := sent s @ [\<lparr>status_code = StatusInternalError, which_resp = StatusOnly\<rparr>]\<rparr>)
       \<and> (\<not> len < length chunk \<longrightarrow>
            badgelink_fs_xfer_upload chunk s =
              s\<lparr>posix := w, running_crc := esp_crc32_le (running_crc s) chunk,
                sent := sent s @ [\<lparr>status_code = StatusOk, which_resp = StatusOnly\<rparr>]\<rparr>)
       \<and> (\<forall>h. streams (posix s) h \<noteq> None \<longrightarrow> streams w h \<noteq> None)"
proof -
  have "\<forall>h. streams (posix s) h \<noteq> None \<longrightarrow> streams w h \<noteq> None"
    using fwrite_keeps_open [of "posix s" _ chunk "xfer_fd s"] assms by simp
  with assms show ?thesis
    by (simp add: badgelink_fs_xfer_upload_def badgelink_status_def badgelink_send_packet_def)
qed

theorem upload_chunk_status_witness:
  "badgelink_fs_xfer_upload [1, 2, 3] (uploading_with 1 ENOSPC) =
     (uploading_with 1 ENOSPC)
       \<lparr>posix := snd (fwrite [1, 2, 3] (Some 0) (posix (uploading_with 1 ENOSPC))),
        sent := sent (uploading_with 1 ENOSPC) @
          [\<lparr>status_code = StatusNoSpace, which_resp = StatusOnly\<rparr>]\<rparr>
   \<and> badgelink_fs_xfer_upload [1, 2, 3] (uploading_with 1 EIO) =
     (uploading_with 1 EIO)
       \<lparr>posix := snd (fwrite [1, 2, 3] (Some 0) (posix (uploading_with 1 EIO))),
        sent := sent (uploading_with 1 EIO) @
          [\<lparr>status_code = StatusInternalError, which_resp = StatusOnly\<rparr>]\<rparr>
   \<and> badgelink_fs_xfer_upload [1, 2, 3] (uploading_with 9 ENOSPC) =
     (uploading_with 9 ENOSPC)
       \<lparr>posix := snd (fwrite [1, 2, 3] (Some 0) (posix (uploading_with 9 ENOSPC))),
        running_crc := esp_crc32_le (running_crc (uploading_with 9 ENOSPC)) [1, 2, 3],
        sent := sent (uploading_with 9 ENOSPC) @
          [\<lparr>status_code = StatusOk, which_resp = StatusOnly\<rparr>]\<rparr>"
proof -
  note step = upload_chunk_status [OF surjective_pairing]
  show ?thesis
    using step [of "[1, 2, 3]" "uploading_with 1 ENOSPC"]
      step [of "[1, 2, 3]" "uploading_with 1 EIO"]
      step [of "[1, 2, 3]" "uploading_with 9 ENOSPC"]
    by (simp add: uploading_with_fd uploading_with_fwrite)
qed

subsection \<open>C7 and C9: the running CRC of an upload\<close>

lemma xfer_upload_step:
  "\<exists>r. sent (badgelink_fs_xfer_upload c s) = sent s @ [r]
      \<and> (status_code r = StatusOk) = (\<not> fst (fwrite c (xfer_fd s) (posix s)) < length c)
      \<and> status_code r \<in> {StatusOk, StatusNoSpace, StatusInternalError}
      \<and> running_crc (badgelink_fs_xfer_upload c s) =
          (if fst (fwrite c (xfer_fd s) (posix s)) < length c then running_crc s
           else esp_crc32_le (running_crc s) c)"
  by (cases "fwrite c (xfer_fd s) (posix s)")
    (simp add: badgelink_fs_xfer_upload_def badgelink_status_def badgelink_send_packet_def)

lemma upload_chunks_run:
  "\<exists>rs. sent (upload_chunks cs s) = sent s @ rs \<and> length rs = length cs
       \<and> acked cs rs = written_chunks cs s
       \<and> (\<forall>r \<in> set rs. status_code r \<in> {StatusOk, StatusNoSpace, StatusInternalError})
       \<and> running_crc (upload_chunks cs s) =
           esp_crc32_le (running_crc s) (concat (written_chunks cs s))"
proof (induction cs arbitrary: s)
  case Nil
  show ?case by simp
next
  case (Cons c cs)
  obtain r where r: "sent (badgelink_fs_xfer_upload c s) = sent s @ [r]"
      "(status_code r = StatusOk) = (\<not> fst (fwrite c (xfer_fd s) (posix s)) < length c)"
      "status_code r \<in> {StatusOk, StatusNoSpace, StatusInternalError}"
      "running_crc (badgelink_fs_xfer_upload c s) =
          (if fst (fwrite c (xfer_fd s) (posix s)) < length c then running_crc s
           else esp_crc32_le (running_crc s) c)"
    using xfer_upload_step [of c s] by blast
  obtain rs where rs: "sent (upload_chunks cs (badgelink_fs_xfer_upload c s)) =
        sent (badgelink_fs_xfer_upload c s) @ rs" "length rs = length cs"
      "acked cs rs = written_chunks cs (badgelink_fs_xfer_upload c s)"
      "\<forall>r \<in> set rs. status_code r \<in> {StatusOk, StatusNoSpace, StatusInternalError}"
      "running_crc (upload_chunks cs (badgelink_fs_xfer_upload c s)) =
         esp_crc32_le (running_crc (badgelink_fs_xfer_upload c s))
           (concat (written_chunks cs (badgelink_fs_xfer_upload c s)))"
    using Cons.IH [of "badgelink_fs_xfer_upload c s"] by blast
  show ?case
  proof (intro exI [of _ "r # rs"] conjI)
    show "sent (upload_chunks (c # cs) s) = sent s @ r # rs" using r(1) rs(1) by simp
    show "length (r # rs) = length (c # cs)" using rs(2) by simp
    show "acked (c # cs) (r # rs) = written_chunks (c # cs) s" using r(2) rs(3) by simp
    show "\<forall>r \<in> set (r # rs). status_code r \<in> {StatusOk, StatusNoSpace, StatusInternalError}"
      using r(3) rs(4) by simp
    show "running_crc (upload_chunks (c # cs) s) =
           esp_crc32_le (running_crc s) (concat (written_chunks (c # cs) s))"
      using r(4) rs(5) by (simp add: esp_crc32_le_append)
  qed
qed

lemma all_written_chunks: "all_written cs s \<Longrightarrow> written_chunks cs s = cs"
  by (induction cs arbitrary: s) simp_all

lemmas upload_eval =
  uploading_with_def sample_defs badgelink_fs_xfer_upload_def fwrite_def file_bytes_def Let_def

text \<open>
  C9: after any sequence of upload chunks, \<open>running_crc\<close> is the CRC-32 fold of
  exactly the chunks whose write was complete, which are the chunks answered StatusOk;
  every other chunk is answered StatusNoSpace or StatusInternalError and leaves
  \<open>running_crc\<close> as it was, also when a prefix of it reached the file.
\<close>

theorem running_crc_written_chunks:
  "running_crc (upload_chunks cs s) =
     esp_crc32_le (running_crc s) (concat (written_chunks cs s))
   \<and> written_chunks cs s = acked cs (new_sent s (upload_chunks cs s))
   \<and> length (new_sent s (upload_chunks cs s)) = length cs
   \<and> list_all (\<lambda>r. status_code r = StatusOk \<or> status_code r = StatusNoSpace
                  \<or> status_code r = StatusInternalError)
        (new_sent s (upload_chunks cs s))"
proof -
  obtain rs where rs: "sent (upload_chunks cs s) = sent s @ rs" "length rs = length cs"
      "acked cs rs = written_chunks cs s"
      "\<forall>r \<in> set rs. status_code r \<in> {StatusOk, StatusNoSpace, StatusInternalError}"
      "running_crc (upload_chunks cs s) =
           esp_crc32_le (running_crc s) (concat (written_chunks cs s))"
    using upload_chunks_run [of cs s] by blast
  have "new_sent s (upload_chunks cs s) = rs"
    using rs(1) by (simp add: new_sent_def)
  with rs show ?thesis by (auto simp: list_all_iff)
qed

theorem running_crc_written_chunks_witness:
  "running_crc (upload_chunks [[1], [2, 3], []] (uploading_with 2 ENOSPC)) = esp_crc32_le 0 [1]
   \<and> written_chunks [[1], [2, 3], []] (uploading_with 2 ENOSPC) = [[1], []]
   \<and> map status_code
        (new_sent (uploading_with 2 ENOSPC)
           (upload_chunks [[1], [2, 3], []] (uploading_with 2 ENOSPC))) =
       [StatusOk, StatusNoSpace, StatusOk]
   \<and> file_bytes (posix (upload_chunks [[1], [2, 3], []] (uploading_with 2 ENOSPC))) ''/g'' =
       [1, 2]"
proof -
  have w: "written_chunks [[1], [2, 3], []] (uploading_with 2 ENOSPC) = [[1], []]"
    by (simp add: upload_eval)
  have r: "running_crc (uploading_with 2 ENOSPC) = 0"
    by (simp add: upload_eval)
  have n: "map status_code
        (new_sent (uploading_with 2 ENOSPC)
           (upload_chunks [[1], [2, 3], []] (uploading_with 2 ENOSPC))) =
       [StatusOk, StatusNoSpace, StatusOk]"
    by (simp add: upload_eval new_sent_def)
  have f: "file_bytes (posix (upload_chunks [[1], [2, 3], []] (uploading_with 2 ENOSPC))) ''/g'' =
       [1, 2]"
    by (simp add: upload_eval)
  show ?thesis
    using running_crc_written_chunks [of "[[1], [2, 3], []]" "uploading_with 2 ENOSPC"] w r n f
    by simp
qed

text \<open>
  C7: after a successful upload start, when every chunk of a sequence is written
  completely, \<open>running_crc\<close> is the CRC-32 of the concatenation of the chunks, and a
  second sequence that splits the same bytes at other places ends with the same value.
\<close>

theorem running_crc_chunk_boundaries:
  assumes "badgelink_xfer_type s0 = BADGELINK_XFER_NONE"
    and "xfer_fd (badgelink_fs_upload req s0) \<noteq> None"
    and "all_written cs (badgelink_fs_upload req s0)"
    and "all_written cs' (badgelink_fs_upload req s0)"
    and "concat cs' = concat cs"
  shows "running_crc (upload_chunks cs (badgelink_fs_upload req s0)) = esp_crc32_le 0 (concat cs)
       \<and> running_crc (upload_chunks cs' (badgelink_fs_upload req s0)) =
           running_crc (upload_chunks cs (badgelink_fs_upload req s0))"
proof -
  let ?s = "badgelink_fs_upload req s0"
  have start: "running_crc ?s = 0"
    using assms(1,2)
    by (auto simp: badgelink_fs_upload_def Let_def badgelink_status_def badgelink_send_packet_def
        open_failed_def split: if_splits)
  have "running_crc (upload_chunks cs ?s) = esp_crc32_le (running_crc ?s) (concat cs)"
    using upload_chunks_run [of cs ?s] all_written_chunks [OF assms(3)] by auto
  moreover have "running_crc (upload_chunks cs' ?s) = esp_crc32_le (running_crc ?s) (concat cs')"
    using upload_chunks_run [of cs' ?s] all_written_chunks [OF assms(4)] by auto
  ultimately show ?thesis using start assms(5) by simp
qed

theorem running_crc_chunk_boundaries_witness:
  "badgelink_xfer_type idle0 = BADGELINK_XFER_NONE
   \<and> xfer_fd (badgelink_fs_upload (req_of ''/g'') idle0) \<noteq> None
   \<and> all_written [[1], [2, 3]] (badgelink_fs_upload (req_of ''/g'') idle0)
   \<and> all_written [[1, 2], [], [3]] (badgelink_fs_upload (req_of ''/g'') idle0)
   \<and> running_crc (upload_chunks [[1], [2, 3]] (badgelink_fs_upload (req_of ''/g'') idle0)) =
       esp_crc32_le 0 [1, 2, 3]
   \<and> running_crc (upload_chunks [[1, 2], [], [3]] (badgelink_fs_upload (req_of ''/g'') idle0)) =
       running_crc (upload_chunks [[1], [2, 3]] (badgelink_fs_upload (req_of ''/g'') idle0))"
proof -
  have a: "badgelink_xfer_type idle0 = BADGELINK_XFER_NONE"
    by (simp add: idle0_def)
  have b: "xfer_fd (badgelink_fs_upload (req_of ''/g'') idle0) \<noteq> None"
    by (simp add: sample_defs)
  have c: "all_written [[1], [2, 3]] (badgelink_fs_upload (req_of ''/g'') idle0)"
    by (simp add: upload_eval)
  have d: "all_written [[1, 2], [], [3]] (badgelink_fs_upload (req_of ''/g'') idle0)"
    by (simp add: upload_eval)
  show ?thesis
    using running_crc_chunk_boundaries [OF a b c d] a b c d by simp
qed

subsection \<open>Finishing and aborting a transfer\<close>

lemma close_xfer_fd_eq: "close_xfer_fd s = s\<lparr>posix := fclose (xfer_fd s) (posix s)\<rparr>"
  by (simp add: close_xfer_fd_def bl_sd_fclose_def fclose_def)

lemma fclose_streams: "streams (fclose (Some h) w) h = None"
  by (simp add: fclose_def)

lemma fclose_nodes [simp]: "nodes (fclose fd w) = nodes w"
  by (simp add: fclose_def split: option.split)

lemma unlink_streams [simp]: "streams (unlink p w) = streams w"
  by (simp add: unlink_def split: option.split node.split)

lemma unlink_no_file: "nodes (unlink p w) p \<noteq> Some (File bs)"
  by (simp add: unlink_def split: option.split node.split)

text \<open>
  C4: the normal finish of an upload closes the handle and compares \<open>running_crc\<close>
  with the CRC the client announced. On a mismatch it unlinks the transfer's path, after
  which no file is there, and answers StatusInternalError; on a match it answers StatusOk
  and the files are as they were.
\<close>

theorem upload_finish:
  assumes "badgelink_xfer_is_upload s"
  shows "(running_crc s \<noteq> xfer_crc32 s \<longrightarrow>
            badgelink_fs_xfer_stop False s =
              s\<lparr>posix := unlink (xfer_path s) (fclose (xfer_fd s) (posix s)),
                sent := sent s @
                  [\<lparr>status_code = StatusInternalError, which_resp = StatusOnly\<rparr>]\<rparr>
            \<and> (\<forall>bs. nodes (posix (badgelink_fs_xfer_stop False s)) (xfer_path s)
                       \<noteq> Some (File bs)))
       \<and> (running_crc s = xfer_crc32 s \<longrightarrow>
            badgelink_fs_xfer_stop False s =
              s\<lparr>posix := fclose (xfer_fd s) (posix s),
                sent := sent s @ [\<lparr>status_code = StatusOk, which_resp = StatusOnly\<rparr>]\<rparr>
            \<and> nodes (posix (badgelink_fs_xfer_stop False s)) = nodes (posix s))
       \<and> (\<forall>h. xfer_fd s = Some h \<longrightarrow>
             streams (posix (badgelink_fs_xfer_stop False s)) h = None)"
  using assms
  by (simp add: badgelink_fs_xfer_stop_def Let_def close_xfer_fd_eq unlink_xfer_path_def
      badgelink_status_def badgelink_send_packet_def fclose_streams unlink_no_file)

text \<open>
  C8: an abnormal stop sends nothing and closes the handle; it unlinks the transfer's
  path when the transfer is an upload, and leaves every file alone when it is a
  download.
\<close>

theorem abort_cleanup:
  "sent (badgelink_fs_xfer_stop True s) = sent s
   \<and> (\<forall>h. xfer_fd s = Some h \<longrightarrow> streams (posix (badgelink_fs_xfer_stop True s)) h = None)
   \<and> (badgelink_xfer_is_upload s \<longrightarrow>
        badgelink_fs_xfer_stop True s =
          s\<lparr>posix := unlink (xfer_path s) (fclose (xfer_fd s) (posix s))\<rparr>
        \<and> (\<forall>bs. nodes (posix (badgelink_fs_xfer_stop True s)) (xfer_path s)
                   \<noteq> Some (File bs)))
   \<and> (\<not> badgelink_xfer_is_upload s \<longrightarrow>
        badgelink_fs_xfer_stop True s = s\<lparr>posix := fclose (xfer_fd s) (posix s)\<rparr>
        \<and> nodes (posix (badgelink_fs_xfer_stop True s)) = nodes (posix s))"
  by (simp add: badgelink_fs_xfer_stop_def Let_def close_xfer_fd_eq unlink_xfer_path_def
      fclose_streams unlink_no_file)

lemma streamed_append: "streamed (xs @ ys) = streamed xs @ streamed ys"
  by (induction xs) (simp_all split: resp.split)

lemma xfer_download_step:
  "\<exists>r. sent (badgelink_fs_xfer_download cap s) = sent s @ [r]
      \<and> running_crc (badgelink_fs_xfer_download cap s) =
          (if badgelink_get_protocol_version s \<ge> 2
           then esp_crc32_le (running_crc s) (streamed [r]) else running_crc s)"
  by (cases "fread cap (xfer_fd s) (posix s)")
    (simp add: badgelink_fs_xfer_download_def badgelink_status_def badgelink_send_packet_def
      badgelink_get_protocol_version_def)

lemma xfer_download_keeps:
  "badgelink_xfer_is_upload (badgelink_fs_xfer_download cap s) = badgelink_xfer_is_upload s"
  "protocol_version (badgelink_fs_xfer_download cap s) = protocol_version s"
  "badgelink_xfer_size (badgelink_fs_xfer_download cap s) = badgelink_xfer_size s"
  "xfer_fd (badgelink_fs_xfer_download cap s) = xfer_fd s"
  by (cases "fread cap (xfer_fd s) (posix s)";
      simp add: badgelink_fs_xfer_download_def badgelink_status_def badgelink_send_packet_def)+

lemma download_chunks_keeps:
  "badgelink_xfer_is_upload (download_chunks cap n s) = badgelink_xfer_is_upload s"
  "protocol_version (download_chunks cap n s) = protocol_version s"
  "badgelink_xfer_size (download_chunks cap n s) = badgelink_xfer_size s"
  "xfer_fd (download_chunks cap n s) = xfer_fd s"
  by (induction n arbitrary: s; simp add: xfer_download_keeps)+

lemma download_chunks_run:
  "\<exists>rs. sent (download_chunks cap n s) = sent s @ rs \<and> length rs = n
       \<and> running_crc (download_chunks cap n s) =
          (if badgelink_get_protocol_version s \<ge> 2
           then esp_crc32_le (running_crc s) (streamed rs) else running_crc s)"
proof (induction n arbitrary: s)
  case 0
  show ?case by simp
next
  case (Suc n)
  let ?s1 = "badgelink_fs_xfer_download cap s"
  obtain r where r: "sent ?s1 = sent s @ [r]"
      "running_crc ?s1 =
          (if badgelink_get_protocol_version s \<ge> 2
           then esp_crc32_le (running_crc s) (streamed [r]) else running_crc s)"
    using xfer_download_step [of cap s] by blast
  obtain rs where rs: "sent (download_chunks cap n ?s1) = sent ?s1 @ rs" "length rs = n"
      "running_crc (download_chunks cap n ?s1) =
          (if badgelink_get_protocol_version ?s1 \<ge> 2
           then esp_crc32_le (running_crc ?s1) (streamed rs) else running_crc ?s1)"
    using Suc.IH [of ?s1] by blast
  have v: "badgelink_get_protocol_version ?s1 = badgelink_get_protocol_version s"
    by (simp add: badgelink_get_protocol_version_def xfer_download_keeps)
  show ?case
  proof (intro exI [of _ "r # rs"] conjI)
    show "sent (download_chunks cap (Suc n) s) = sent s @ r # rs" using r(1) rs(1) by simp
    show "length (r # rs) = Suc n" using rs(2) by simp
    show "running_crc (download_chunks cap (Suc n) s) =
          (if badgelink_get_protocol_version s \<ge> 2
           then esp_crc32_le (running_crc s) (streamed (r # rs)) else running_crc s)"
      using r(2) rs(3) v streamed_append [of "[r]" rs]
      by (simp add: esp_crc32_le_append del: streamed.simps)
  qed
qed

text \<open>
  C3: the normal finish of a download, after any number of continue requests, closes the
  handle. Below version 2 the answer is a plain StatusOk. From version 2 on it is the
  filesystem response with \<open>badgelink_xfer_size\<close> and the CRC-32 fold, from the
  \<open>running_crc\<close> the transfer began with, of the chunk data that was sent.
\<close>

theorem download_finish:
  assumes "\<not> badgelink_xfer_is_upload s"
  shows "(\<forall>h. xfer_fd s = Some h \<longrightarrow>
            streams (posix (badgelink_fs_xfer_stop False (download_chunks cap n s))) h = None)
       \<and> (badgelink_get_protocol_version s < 2 \<longrightarrow>
            sent (badgelink_fs_xfer_stop False (download_chunks cap n s)) =
              sent (download_chunks cap n s) @
                [\<lparr>status_code = StatusOk, which_resp = StatusOnly\<rparr>])
       \<and> (badgelink_get_protocol_version s \<ge> 2 \<longrightarrow>
            sent (badgelink_fs_xfer_stop False (download_chunks cap n s)) =
              sent (download_chunks cap n s) @
                [\<lparr>status_code = StatusOk,
                  which_resp = FsResp_crc32
                    (esp_crc32_le (running_crc s)
                       (streamed (new_sent s (download_chunks cap n s))))
                    (badgelink_xfer_size s)\<rparr>])"
proof -
  let ?s2 = "download_chunks cap n s"
  obtain rs where rs: "sent ?s2 = sent s @ rs"
      "running_crc ?s2 =
          (if badgelink_get_protocol_version s \<ge> 2
           then esp_crc32_le (running_crc s) (streamed rs) else running_crc s)"
    using download_chunks_run [of cap n s] by blast
  have ns: "new_sent s ?s2 = rs"
    using rs(1) by (simp add: new_sent_def)
  have up: "\<not> badgelink_xfer_is_upload ?s2"
    using assms by (simp add: download_chunks_keeps)
  have v: "badgelink_get_protocol_version ?s2 = badgelink_get_protocol_version s"
    by (simp add: badgelink_get_protocol_version_def download_chunks_keeps)
  have stop: "badgelink_fs_xfer_stop False ?s2 =
      (if badgelink_get_protocol_version s \<ge> 2
       then badgelink_send_packet
              \<lparr>status_code = StatusOk,
               which_resp = FsResp_crc32 (running_crc ?s2) (badgelink_xfer_size ?s2)\<rparr>
              (?s2\<lparr>posix := fclose (xfer_fd ?s2) (posix ?s2)\<rparr>)
       else badgelink_status_ok (?s2\<lparr>posix := fclose (xfer_fd ?s2) (posix ?s2)\<rparr>))"
    using up v
    by (simp add: badgelink_fs_xfer_stop_def Let_def close_xfer_fd_eq
        badgelink_get_protocol_version_def)
  show ?thesis
    using rs(2) ns
    by (auto simp: stop download_chunks_keeps badgelink_send_packet_def badgelink_status_def
        fclose_streams)
qed

subsection \<open>Starting a download\<close>

lemma deliverable_split:
  "deliverable n st w @
     drop (st_pos st + length (deliverable n st w)) (readable_prefix w (st_path st)) =
   drop (st_pos st) (readable_prefix w (st_path st))"
proof -
  let ?lim = "readable_limit w (st_path st)"
  let ?xs = "drop (st_pos st) (file_bytes w (st_path st))"
  let ?k = "min n (?lim - st_pos st)"
  have len: "length (deliverable n st w) = ?k" by (rule length_deliverable)
  have e: "?k + (?lim - st_pos st - ?k) = ?lim - st_pos st"
    by arith
  have "take (?lim - st_pos st) ?xs = take (?k + (?lim - st_pos st - ?k)) ?xs"
    by (simp only: e)
  also have "\<dots> = take ?k ?xs @ take (?lim - st_pos st - ?k) (drop ?k ?xs)"
    by (rule take_add)
  finally have "take (?lim - st_pos st) ?xs =
      deliverable n st w @ take (?lim - (st_pos st + ?k)) (drop (st_pos st + ?k) (file_bytes w (st_path st)))"
    by (simp add: deliverable_def add.commute)
  then show ?thesis
    by (simp add: readable_prefix_def drop_take len)
qed

lemma crc_scan_result:
  "streams w h = Some st \<Longrightarrow>
   snd (crc_scan (Some h) w crc sz) =
     (esp_crc32_le crc (drop (st_pos st) (readable_prefix w (st_path st))),
      sz + of_nat (length (drop (st_pos st) (readable_prefix w (st_path st)))))"
proof (induction "Some h" w crc sz arbitrary: st rule: crc_scan.induct)
  case (1 w crc sz)
  let ?got = "deliverable 128 st w"
  let ?w' = "snd (fread 128 (Some h) w)"
  let ?st' = "st\<lparr>st_pos := st_pos st + length ?got,
              st_error := (st_error st \<or>
                (length ?got < 128 \<and>
                 st_pos st + length ?got < length (file_bytes w (st_path st))))\<rparr>"
  have got: "fst (fread 128 (Some h) w) = ?got"
    using "1.prems" by (simp add: fread_fst)
  have st': "streams ?w' h = Some ?st'"
    using "1.prems" by (rule fread_stream)
  have pre: "readable_prefix ?w' (st_path st) = readable_prefix w (st_path st)"
    by (simp add: readable_prefix_def)
  show ?case
  proof (cases "length ?got = 0")
    case True
    then have "min 128 (readable_limit w (st_path st) - st_pos st) = 0"
      by (simp add: length_deliverable)
    then have "readable_limit w (st_path st) \<le> st_pos st" by simp
    then have "drop (st_pos st) (readable_prefix w (st_path st)) = []"
      by (simp add: readable_prefix_def)
    with True got show ?thesis
      by (subst crc_scan.simps) simp
  next
    case False
    have "snd (crc_scan (Some h) w crc sz) =
          snd (crc_scan (Some h) ?w' (esp_crc32_le crc ?got) (sz + of_nat (length ?got)))"
      using False got by (subst crc_scan.simps) simp
    also have "\<dots> =
        (esp_crc32_le (esp_crc32_le crc ?got)
           (drop (st_pos ?st') (readable_prefix ?w' (st_path ?st'))),
         sz + of_nat (length ?got) +
           of_nat (length (drop (st_pos ?st') (readable_prefix ?w' (st_path ?st')))))"
    proof -
      have ne: "length (fst (fread 128 (Some h) w)) \<noteq> 0"
        using False got by simp
      show ?thesis
        using "1.hyps" [OF ne st'] by (simp only: got)
    qed
    also have "\<dots> =
        (esp_crc32_le crc (drop (st_pos st) (readable_prefix w (st_path st))),
         sz + of_nat (length (drop (st_pos st) (readable_prefix w (st_path st)))))"
      using deliverable_split [of 128 st w, symmetric]
        arg_cong [OF deliverable_split [of 128 st w, symmetric], of length]
      by (simp add: pre esp_crc32_le_append del: length_drop)
    finally show ?thesis .
  qed
qed


lemma crc_scan_stream:
  "streams w h = Some st \<Longrightarrow> st_pos st \<le> readable_limit w (st_path st) \<Longrightarrow>
   \<exists>st'. streams (fst (crc_scan (Some h) w crc sz)) h = Some st'
     \<and> st_error st' =
         (st_error st \<or> readable_limit w (st_path st) < length (file_bytes w (st_path st)))"
proof (induction "Some h" w crc sz arbitrary: st rule: crc_scan.induct)
  case (1 w crc sz)
  let ?lim = "readable_limit w (st_path st)"
  let ?got = "deliverable 128 st w"
  let ?w' = "snd (fread 128 (Some h) w)"
  let ?st' = "st\<lparr>st_pos := st_pos st + length ?got,
              st_error := (st_error st \<or>
                (length ?got < 128 \<and>
                 st_pos st + length ?got < length (file_bytes w (st_path st))))\<rparr>"
  have got: "fst (fread 128 (Some h) w) = ?got"
    using "1.prems"(1) by (simp add: fread_fst)
  have st': "streams ?w' h = Some ?st'"
    using "1.prems"(1) by (rule fread_stream)
  have len: "length ?got = min 128 (?lim - st_pos st)"
    by (rule length_deliverable)
  have le: "?lim \<le> length (file_bytes w (st_path st))"
    by (simp add: readable_limit_def split: option.split)
  show ?case
  proof (cases "length ?got = 0")
    case True
    with len "1.prems"(2) have "st_pos st = ?lim" by simp
    with True got st' show ?thesis
      by (subst crc_scan.simps) simp
  next
    case False
    have ne: "length (fst (fread 128 (Some h) w)) \<noteq> 0"
      using False got by simp
    have pos': "st_pos ?st' \<le> readable_limit ?w' (st_path ?st')"
      using len "1.prems"(2) by simp
    obtain st'' where st'': "streams (fst (crc_scan (Some h) ?w' (esp_crc32_le crc ?got)
          (sz + of_nat (length ?got)))) h = Some st''"
        "st_error st'' = (st_error ?st' \<or>
           readable_limit ?w' (st_path ?st') < length (file_bytes ?w' (st_path ?st')))"
      using "1.hyps" [OF ne st' pos'] by (auto simp only: got)
    have short: "length ?got < 128 \<Longrightarrow> st_pos st + length ?got = ?lim"
      using len "1.prems"(2) by simp
    have "crc_scan (Some h) w crc sz =
          crc_scan (Some h) ?w' (esp_crc32_le crc ?got) (sz + of_nat (length ?got))"
      using False got by (subst crc_scan.simps) simp
    moreover have "st_error st'' = (st_error st \<or> ?lim < length (file_bytes w (st_path st)))"
      using st''(2) short le by auto
    ultimately show ?thesis using st''(1) by simp
  qed
qed

lemma open_xfer_read:
  assumes "open_fault (posix s) (req_path req) = None"
    and "nodes (posix s) (req_path req) = Some (File bs)"
  shows "open_xfer req RB s =
     s\<lparr>xfer_path := strlcpy (req_path req) 256,
       xfer_is_sd := strncmp_eq (req_path req) ''/sd'' 3,
       xfer_fd := Some (next_stream (posix s)),
       posix := (posix s)\<lparr>streams := (streams (posix s))(next_stream (posix s) \<mapsto>
                    \<lparr>st_path = req_path req, st_pos = 0, st_error = False\<rparr>),
                  next_stream := Suc (next_stream (posix s))\<rparr>\<rparr>"
  using assms
  by (simp add: open_xfer_def Let_def bl_sd_fopen_def fopen_def new_stream_def)


lemma download_v1_start:
  assumes idle: "badgelink_xfer_type s = BADGELINK_XFER_NONE"
    and v1: "\<not> badgelink_get_protocol_version s \<ge> 2"
    and nofault: "open_fault (posix s) (req_path req) = None"
    and isfile: "nodes (posix s) (req_path req) = Some (File bs)"
  shows "sent (badgelink_fs_download req s) =
           sent s @
             [\<lparr>status_code = StatusOk,
               which_resp = FsResp_crc32
                 (esp_crc32_le 0 (readable_prefix (posix s) (req_path req)))
                 (of_nat (length (readable_prefix (posix s) (req_path req))))\<rparr>]"
    and "badgelink_xfer_type (badgelink_fs_download req s) = BADGELINK_XFER_FS"
    and "\<not> badgelink_xfer_is_upload (badgelink_fs_download req s)"
    and "badgelink_xfer_size (badgelink_fs_download req s) =
           of_nat (length (readable_prefix (posix s) (req_path req)))"
    and "xfer_fd (badgelink_fs_download req s) = Some (next_stream (posix s))"
    and "ferror (xfer_fd (badgelink_fs_download req s)) (posix (badgelink_fs_download req s)) =
           (readable_limit (posix s) (req_path req) < length bs)"
    and "\<exists>st. streams (posix (badgelink_fs_download req s)) (next_stream (posix s)) = Some st
           \<and> st_pos st = 0"
proof -
  let ?p = "req_path req"
  let ?h = "next_stream (posix s)"
  let ?st0 = "\<lparr>st_path = ?p, st_pos = 0, st_error = False\<rparr>"
  let ?w1 = "(posix s)\<lparr>streams := (streams (posix s))(?h \<mapsto> ?st0),
                       next_stream := Suc ?h\<rparr>"
  let ?s1 = "open_xfer req RB s"
  have s1: "xfer_fd ?s1 = Some ?h" "posix ?s1 = ?w1" "sent ?s1 = sent s"
      "badgelink_get_protocol_version ?s1 = badgelink_get_protocol_version s"
    by (simp_all add: open_xfer_read [OF nofault isfile] badgelink_get_protocol_version_def)
  have st0: "streams ?w1 ?h = Some ?st0" by simp
  have fb: "file_bytes ?w1 ?p = bs" "file_bytes (posix s) ?p = bs"
    using isfile by (simp_all add: file_bytes_def)
  have lim: "readable_limit ?w1 ?p = readable_limit (posix s) ?p"
    using fb by (simp add: readable_limit_def split: option.split)
  have pre: "readable_prefix ?w1 ?p = readable_prefix (posix s) ?p"
    using fb lim by (simp add: readable_prefix_def)
  have res: "snd (crc_scan (Some ?h) ?w1 0 0) =
      (esp_crc32_le 0 (readable_prefix (posix s) ?p),
       of_nat (length (readable_prefix (posix s) ?p)))"
    using crc_scan_result [OF st0, of 0 0] pre by simp
  obtain st' where st': "streams (fst (crc_scan (Some ?h) ?w1 0 0)) ?h = Some st'"
      "st_error st' = (readable_limit (posix s) ?p < length bs)"
    using crc_scan_stream [OF st0, of 0 0] lim fb by auto
  have dl: "badgelink_fs_download req s =
      start_download (esp_crc32_le 0 (readable_prefix (posix s) ?p))
        (of_nat (length (readable_prefix (posix s) ?p)))
        (?s1\<lparr>posix := fseek_set0 (Some ?h) (fst (crc_scan (Some ?h) ?w1 0 0))\<rparr>)"
    using idle v1 s1 res
    by (simp add: badgelink_fs_download_def Let_def split_beta)
  show "sent (badgelink_fs_download req s) =
           sent s @
             [\<lparr>status_code = StatusOk,
               which_resp = FsResp_crc32
                 (esp_crc32_le 0 (readable_prefix (posix s) (req_path req)))
                 (of_nat (length (readable_prefix (posix s) (req_path req))))\<rparr>]"
    by (simp add: dl start_download_def badgelink_send_packet_def s1)
  show "badgelink_xfer_type (badgelink_fs_download req s) = BADGELINK_XFER_FS"
    by (simp add: dl start_download_def badgelink_send_packet_def)
  show "\<not> badgelink_xfer_is_upload (badgelink_fs_download req s)"
    by (simp add: dl start_download_def badgelink_send_packet_def)
  show "badgelink_xfer_size (badgelink_fs_download req s) =
           of_nat (length (readable_prefix (posix s) (req_path req)))"
    by (simp add: dl start_download_def badgelink_send_packet_def)
  show "xfer_fd (badgelink_fs_download req s) = Some (next_stream (posix s))"
    by (simp add: dl start_download_def badgelink_send_packet_def s1)
  show "ferror (xfer_fd (badgelink_fs_download req s)) (posix (badgelink_fs_download req s)) =
           (readable_limit (posix s) (req_path req) < length bs)"
    using st' by (simp add: dl start_download_def badgelink_send_packet_def s1 ferror_def
        fseek_set0_def)
  show "\<exists>st. streams (posix (badgelink_fs_download req s)) (next_stream (posix s)) = Some st
           \<and> st_pos st = 0"
    using st' by (simp add: dl start_download_def badgelink_send_packet_def fseek_set0_def)
qed

lemma download_v1_start_readable:
  assumes "badgelink_xfer_type s = BADGELINK_XFER_NONE"
    and "\<not> badgelink_get_protocol_version s \<ge> 2"
    and "open_fault (posix s) (req_path req) = None"
    and "nodes (posix s) (req_path req) = Some (File bs)"
    and "read_fault (posix s) (req_path req) = None"
  shows "sent (badgelink_fs_download req s) =
           sent s @
             [\<lparr>status_code = StatusOk,
               which_resp = FsResp_crc32 (esp_crc32_le 0 bs) (of_nat (length bs))\<rparr>]"
    and "\<not> ferror (xfer_fd (badgelink_fs_download req s)) (posix (badgelink_fs_download req s))"
proof -
  have fb: "file_bytes (posix s) (req_path req) = bs"
    using assms(4) by (simp add: file_bytes_def)
  have lim: "readable_limit (posix s) (req_path req) = length bs"
    using assms(5) fb by (simp add: readable_limit_def)
  have pre: "readable_prefix (posix s) (req_path req) = bs"
    using lim fb by (simp add: readable_prefix_def)
  show "sent (badgelink_fs_download req s) =
           sent s @
             [\<lparr>status_code = StatusOk,
               which_resp = FsResp_crc32 (esp_crc32_le 0 bs) (of_nat (length bs))\<rparr>]"
    using download_v1_start(1) [OF assms(1-4)] pre by simp
  show "\<not> ferror (xfer_fd (badgelink_fs_download req s)) (posix (badgelink_fs_download req s))"
    using download_v1_start(6) [OF assms(1-4)] lim by simp
qed

lemma download_v2_start:
  assumes idle: "badgelink_xfer_type s = BADGELINK_XFER_NONE"
    and v2: "badgelink_get_protocol_version s \<ge> 2"
    and nofault: "open_fault (posix s) (req_path req) = None"
    and isfile: "nodes (posix s) (req_path req) = Some (File bs)"
    and stat: "fstat_fault (posix s) = None"
  shows "badgelink_fs_download req s =
     s\<lparr>badgelink_xfer_type := BADGELINK_XFER_FS,
       badgelink_xfer_is_upload := False,
       badgelink_xfer_size := of_nat (length bs),
       badgelink_xfer_pos := 0,
       xfer_path := strlcpy (req_path req) 256,
       xfer_fd := Some (next_stream (posix s)),
       xfer_is_sd := strncmp_eq (req_path req) ''/sd'' 3,
       running_crc := 0,
       posix := (posix s)\<lparr>streams := (streams (posix s))(next_stream (posix s) \<mapsto>
                    \<lparr>st_path = req_path req, st_pos = 0, st_error = False\<rparr>),
                  next_stream := Suc (next_stream (posix s))\<rparr>,
       sent := sent s @
         [\<lparr>status_code = StatusOk, which_resp = FsResp_crc32 0 (of_nat (length bs))\<rparr>]\<rparr>"
  using idle v2 isfile stat
  by (simp add: badgelink_fs_download_def Let_def open_xfer_read [OF nofault isfile]
      badgelink_get_protocol_version_def fstat_def file_bytes_def start_download_def
      badgelink_send_packet_def)

subsection \<open>Sample runs\<close>

text \<open>
  The standard check value of CRC-32, the CRC of the ASCII digits 1 to 9, and the CRCs of
  the sample file and of its first byte.
\<close>

lemmas download_eval =
  downloading_def idle0_def world0_def req_of_def badgelink_fs_download_def open_xfer_def
  strncmp_eq_def fopen_def new_stream_def badgelink_status_def badgelink_send_packet_def
  strlcpy_def badgelink_get_protocol_version_def fstat_def file_bytes_def start_download_def
  badgelink_fs_xfer_download_def fread_def deliverable_def readable_limit_def ferror_def
  fseek_set0_def Let_def

lemma esp_crc32_le_check:
  "esp_crc32_le 0 [0x31, 0x32, 0x33, 0x34, 0x35, 0x36, 0x37, 0x38, 0x39] = 0xCBF43926"
  by (simp add: esp_crc32_le_def crc32_byte_def crc32_bit_def)

lemma crc_ab: "esp_crc32_le 0 [0x61, 0x62] = 0x9E83486D"
  by (simp add: esp_crc32_le_def crc32_byte_def crc32_bit_def)

lemma crc_a: "esp_crc32_le 0 [0x61] = 0xE8B7BE43"
  by (simp add: esp_crc32_le_def crc32_byte_def crc32_bit_def)

lemma downloading2:
  "\<not> badgelink_xfer_is_upload (downloading 2)"
  "badgelink_get_protocol_version (downloading 2) = 2"
  "running_crc (downloading 2) = 0"
  "badgelink_xfer_size (downloading 2) = 2"
  "xfer_fd (downloading 2) = Some 0"
  by (simp_all add: download_eval)

lemma downloading2_chunks:
  "new_sent (downloading 2) (download_chunks 2 2 (downloading 2)) =
     [\<lparr>status_code = StatusOk, which_resp = DownloadChunk 0 [0x61, 0x62]\<rparr>,
      \<lparr>status_code = StatusOk, which_resp = DownloadChunk 0 []\<rparr>]"
  by (simp add: download_eval new_sent_def numeral_2_eq_2)

lemma v1_lt_2: "\<not> (2 :: u16) \<le> 1"
  by (simp add: word_le_nat_alt)

lemma downloading1:
  "\<not> badgelink_xfer_is_upload (downloading 1)"
  "badgelink_get_protocol_version (downloading 1) = 1"
  "xfer_fd (downloading 1) = Some 0"
  "sent (downloading 1) = [\<lparr>status_code = StatusOk, which_resp = FsResp_crc32 0x9E83486D 2\<rparr>]"
  by (simp_all add: download_eval crc_scan.simps crc_ab v1_lt_2)


lemma downloading1_chunks:
  "sent (download_chunks 2 2 (downloading 1)) =
     [\<lparr>status_code = StatusOk, which_resp = FsResp_crc32 0x9E83486D 2\<rparr>,
      \<lparr>status_code = StatusOk, which_resp = DownloadChunk 0 [0x61, 0x62]\<rparr>,
      \<lparr>status_code = StatusOk, which_resp = DownloadChunk 0 []\<rparr>]"
  by (simp add: download_eval crc_scan.simps crc_ab v1_lt_2 numeral_2_eq_2)

lemma uploading0_facts:
  "badgelink_xfer_is_upload uploading0"
  "running_crc uploading0 = 0"
  "xfer_crc32 uploading0 = 0"
  "xfer_path uploading0 = ''/g''"
  "xfer_fd uploading0 = Some 0"
  "sent uploading0 = [\<lparr>status_code = StatusOk, which_resp = StatusOnly\<rparr>]"
  "file_bytes (posix uploading0) ''/g'' = []"
  "nodes (posix uploading0) ''/g'' = Some (File [])"
  by (simp_all add: uploading0_def sample_defs file_bytes_def)

lemma uploaded_a_facts:
  "badgelink_xfer_is_upload (badgelink_fs_xfer_upload [0x61] uploading0)"
  "running_crc (badgelink_fs_xfer_upload [0x61] uploading0) = 0xE8B7BE43"
  "xfer_crc32 (badgelink_fs_xfer_upload [0x61] uploading0) = 0"
  "xfer_path (badgelink_fs_xfer_upload [0x61] uploading0) = ''/g''"
  "xfer_fd (badgelink_fs_xfer_upload [0x61] uploading0) = Some 0"
  "nodes (posix (badgelink_fs_xfer_upload [0x61] uploading0)) ''/g'' = Some (File [0x61])"
  by (simp_all add: uploading0_def upload_eval crc_a)

lemma readable_prefix_fault:
  "read_fault w p = Some e \<Longrightarrow> readable_prefix w p = take e (file_bytes w p)"
  by (simp add: readable_prefix_def readable_limit_def min_def)

lemma faulty_at_facts:
  "badgelink_xfer_type (faulty_at e) = BADGELINK_XFER_NONE"
  "\<not> badgelink_get_protocol_version (faulty_at e) \<ge> 2"
  "open_fault (posix (faulty_at e)) (req_path (req_of ''/f'')) = None"
  "nodes (posix (faulty_at e)) (req_path (req_of ''/f'')) = Some (File [0x61, 0x62])"
  "read_fault (posix (faulty_at e)) (req_path (req_of ''/f'')) = Some e"
  "sent (faulty_at e) = []"
  by (simp_all add: faulty_at_def idle0_def world0_def req_of_def
      badgelink_get_protocol_version_def v1_lt_2)

subsection \<open>Finish and abort on the sample states\<close>

theorem download_finish_witness:
  "\<not> badgelink_xfer_is_upload (downloading 2)
   \<and> streams (posix (badgelink_fs_xfer_stop False (download_chunks 2 2 (downloading 2)))) 0 = None
   \<and> sent (badgelink_fs_xfer_stop False (download_chunks 2 2 (downloading 2))) =
       sent (download_chunks 2 2 (downloading 2)) @
         [\<lparr>status_code = StatusOk, which_resp = FsResp_crc32 0x9E83486D 2\<rparr>]
   \<and> \<not> badgelink_xfer_is_upload (downloading 1)
   \<and> sent (badgelink_fs_xfer_stop False (download_chunks 2 2 (downloading 1))) =
       [\<lparr>status_code = StatusOk, which_resp = FsResp_crc32 0x9E83486D 2\<rparr>,
        \<lparr>status_code = StatusOk, which_resp = DownloadChunk 0 [0x61, 0x62]\<rparr>,
        \<lparr>status_code = StatusOk, which_resp = DownloadChunk 0 []\<rparr>,
        \<lparr>status_code = StatusOk, which_resp = StatusOnly\<rparr>]"
  using download_finish [OF downloading2(1), of 2 2] download_finish [OF downloading1(1), of 2 2]
  by (simp add: downloading2 downloading2_chunks downloading1 downloading1_chunks crc_ab
      v1_lt_2 word_less_nat_alt)

theorem upload_finish_witness:
  "badgelink_xfer_is_upload uploading0
   \<and> sent (badgelink_fs_xfer_stop False uploading0) =
       sent uploading0 @ [\<lparr>status_code = StatusOk, which_resp = StatusOnly\<rparr>]
   \<and> nodes (posix (badgelink_fs_xfer_stop False uploading0)) ''/g'' = Some (File [])
   \<and> streams (posix (badgelink_fs_xfer_stop False uploading0)) 0 = None
   \<and> nodes (posix (badgelink_fs_xfer_upload [0x61] uploading0)) ''/g'' = Some (File [0x61])
   \<and> sent (badgelink_fs_xfer_stop False (badgelink_fs_xfer_upload [0x61] uploading0)) =
       sent (badgelink_fs_xfer_upload [0x61] uploading0) @
         [\<lparr>status_code = StatusInternalError, which_resp = StatusOnly\<rparr>]
   \<and> nodes (posix (badgelink_fs_xfer_stop False (badgelink_fs_xfer_upload [0x61] uploading0)))
         ''/g'' = None
   \<and> streams (posix (badgelink_fs_xfer_stop False (badgelink_fs_xfer_upload [0x61] uploading0)))
         0 = None"
  using upload_finish [OF uploading0_facts(1)] upload_finish [OF uploaded_a_facts(1)]
  by (simp add: uploading0_facts uploaded_a_facts unlink_def fclose_def)

theorem abort_cleanup_witness:
  "sent (badgelink_fs_xfer_stop True uploading0) = sent uploading0
   \<and> streams (posix (badgelink_fs_xfer_stop True uploading0)) 0 = None
   \<and> nodes (posix uploading0) ''/g'' = Some (File [])
   \<and> nodes (posix (badgelink_fs_xfer_stop True uploading0)) ''/g'' = None
   \<and> sent (badgelink_fs_xfer_stop True (downloading 2)) = sent (downloading 2)
   \<and> streams (posix (badgelink_fs_xfer_stop True (downloading 2))) 0 = None
   \<and> nodes (posix (badgelink_fs_xfer_stop True (downloading 2))) = nodes (posix (downloading 2))"
  using abort_cleanup [of uploading0] abort_cleanup [of "downloading 2"]
  by (simp add: uploading0_facts downloading2 unlink_def fclose_def)

subsection \<open>C10: a read error during the version-1 scan\<close>

text \<open>
  C10: below version 2, when the medium cannot read the file from offset \<open>e\<close> on, the
  scan ends there as it would at the end of the file. The start response is StatusOk with
  the size \<open>e\<close> and the CRC-32 of the first \<open>e\<close> bytes, the transfer is active, and
  the error indicator of the stream is set although nothing consulted it:
  StatusInternalError is not sent.
\<close>

theorem prescan_read_error_unreported:
  assumes "badgelink_xfer_type s = BADGELINK_XFER_NONE"
    and "\<not> badgelink_get_protocol_version s \<ge> 2"
    and "open_fault (posix s) (req_path req) = None"
    and "nodes (posix s) (req_path req) = Some (File bs)"
    and "read_fault (posix s) (req_path req) = Some e"
    and "e < length bs"
  shows "sent (badgelink_fs_download req s) =
           sent s @
             [\<lparr>status_code = StatusOk,
               which_resp = FsResp_crc32 (esp_crc32_le 0 (take e bs)) (of_nat e)\<rparr>]
       \<and> badgelink_xfer_type (badgelink_fs_download req s) = BADGELINK_XFER_FS
       \<and> ferror (xfer_fd (badgelink_fs_download req s)) (posix (badgelink_fs_download req s))"
proof -
  have fb: "file_bytes (posix s) (req_path req) = bs"
    using assms(4) by (simp add: file_bytes_def)
  have pre: "readable_prefix (posix s) (req_path req) = take e bs"
    using readable_prefix_fault [OF assms(5)] fb by simp
  have lim: "readable_limit (posix s) (req_path req) < length bs"
    using assms(5,6) fb by (simp add: readable_limit_def)
  show ?thesis
    using download_v1_start [OF assms(1-4)] pre lim assms(6) by simp
qed

theorem prescan_read_error_unreported_witness:
  "badgelink_xfer_type (faulty_at 0) = BADGELINK_XFER_NONE
   \<and> \<not> badgelink_get_protocol_version (faulty_at 0) \<ge> 2
   \<and> read_fault (posix (faulty_at 0)) ''/f'' = Some 0
   \<and> nodes (posix (faulty_at 0)) ''/f'' = Some (File [0x61, 0x62])
   \<and> sent (badgelink_fs_download (req_of ''/f'') (faulty_at 0)) =
       [\<lparr>status_code = StatusOk, which_resp = FsResp_crc32 0 0\<rparr>]
   \<and> badgelink_xfer_type (badgelink_fs_download (req_of ''/f'') (faulty_at 0)) =
       BADGELINK_XFER_FS
   \<and> ferror (xfer_fd (badgelink_fs_download (req_of ''/f'') (faulty_at 0)))
        (posix (badgelink_fs_download (req_of ''/f'') (faulty_at 0)))"
proof -
  have lt: "0 < length [0x61 :: u8, 0x62]" by simp
  show ?thesis
    using prescan_read_error_unreported [OF faulty_at_facts(1-5) lt] faulty_at_facts [of 0]
    by (simp add: req_of_def)
qed

subsection \<open>C2: what a download start reports\<close>

text \<open>
  C2 asks that a successful version-1 start reports the CRC-32 of the full file. With
  version 1, on the two-byte file whose second byte cannot be read, the start answers
  StatusOk with size 1 and the CRC-32 of the first byte, \<^verbatim>\<open>0xE8B7BE43\<close>; the CRC-32
  of the file is \<^verbatim>\<open>0x9E83486D\<close>. The continue handler of the same file checks
  \<^verbatim>\<open>ferror\<close> after its read and answers StatusInternalError; the scan does not.
  Where every read succeeds the claim holds: \<open>download_v1_start\<close> with no unreadable
  offset gives the size and CRC-32 of the whole file, and \<open>download_v2_start\<close> gives
  the size from \<^verbatim>\<open>fstat\<close>, the CRC 0 and \<open>running_crc = 0\<close>.
\<close>

theorem download_v1_prefix_crc:
  "badgelink_get_protocol_version (faulty_at 1) = 1
   \<and> file_bytes (posix (faulty_at 1)) ''/f'' = [0x61, 0x62]
   \<and> sent (badgelink_fs_download (req_of ''/f'') (faulty_at 1)) =
       [\<lparr>status_code = StatusOk, which_resp = FsResp_crc32 0xE8B7BE43 1\<rparr>]
   \<and> esp_crc32_le 0 [0x61, 0x62] = 0x9E83486D"
proof -
  have "readable_prefix (posix (faulty_at 1)) (req_path (req_of ''/f'')) = [0x61]"
    using readable_prefix_fault [OF faulty_at_facts(5), of 1] faulty_at_facts(4) [of 1]
    by (simp add: file_bytes_def)
  then have "sent (badgelink_fs_download (req_of ''/f'') (faulty_at 1)) =
       [\<lparr>status_code = StatusOk, which_resp = FsResp_crc32 0xE8B7BE43 1\<rparr>]"
    using download_v1_start(1) [OF faulty_at_facts(1-4), of 1]
    by (simp add: faulty_at_facts crc_a)
  moreover have "badgelink_get_protocol_version (faulty_at 1) = 1"
    by (simp add: faulty_at_def idle0_def badgelink_get_protocol_version_def)
  moreover have "file_bytes (posix (faulty_at 1)) ''/f'' = [0x61, 0x62]"
    by (simp add: faulty_at_def idle0_def world0_def file_bytes_def)
  ultimately show ?thesis by (simp add: crc_ab)
qed

end
